theory Spec2Isabelle
  imports Complex_Main
begin

section \<open>Values, exceptions and HTTP responses\<close>

text \<open>
  The request body as Flask decodes it (\<^verbatim>\<open>request.json\<close>): a Python value built from
  JSON. A decoded object is a dict; it is kept as an association list and read with
  \<open>map_of\<close>.
\<close>

datatype json =
    JNull
  | JBool bool
  | JInt int
  | JFloat rat
  | JStr string
  | JArr "json list"
  | JObj "(string \<times> json) list"

text \<open>
  The exceptions the handler can meet. \<open>RequestError\<close> stands for whatever
  \<^verbatim>\<open>fetch_data\<close> raises (a network failure, a body that is not JSON) and carries the
  text of that exception.
\<close>

datatype py_error =
    AttributeError string
  | RequestError string
  | IndexError
  | KeyError string
  | ValueError string
  | ZeroDivisionError
  | OverflowError string

text \<open>What is raised out of a view function: a werkzeug \<open>HTTPException\<close> with its
  status code and description, or any other exception.\<close>

datatype exn = HTTPException nat string | Exception py_error

text \<open>
  The values stored in the response dict. \<open>TopPercent a b\<close> stands for the string
  \<^verbatim>\<open>f"Top {(a / b) * 100:.2f}%"\<close> of a float division with \<open>b \<noteq> 0\<close>; its digits are
  those of a binary float and are not computed here.
\<close>

datatype py_value = VStr string | VInt int | TopPercent int int

text \<open>A response: the dict handed to \<^verbatim>\<open>jsonify\<close>, with its items in the order of the dict
  (the order in which the JSON text lists them is not modelled), and the status code.\<close>

record http_response =
  body :: "(string \<times> py_value) list"
  status_code :: nat

section \<open>Python library functions\<close>

text \<open>\<^verbatim>\<open>str(n)\<close> and \<^verbatim>\<open>f"{n}"\<close> for an int: decimal digits, with a sign when negative.\<close>

function digits :: "nat \<Rightarrow> string" where
  "digits n =
     (if n < 10 then [''0123456789'' ! n]
      else digits (n div 10) @ [''0123456789'' ! (n mod 10)])"
  by pat_completeness auto
termination
  by (relation "measure (\<lambda>n. n)") auto

declare digits.simps [simp del]

definition str_int :: "int \<Rightarrow> string" where
  "str_int i = (if i < 0 then CHR ''-'' # digits (nat (- i)) else digits (nat i))"

text \<open>\<^verbatim>\<open>str(e)\<close> for an exception.\<close>

fun str_exc :: "py_error \<Rightarrow> string" where
  "str_exc (AttributeError msg) = msg"
| "str_exc (RequestError msg) = msg"
| "str_exc IndexError = ''list index out of range''"
| "str_exc (KeyError k) = [CHR 0x27] @ k @ [CHR 0x27]"
| "str_exc (ValueError msg) = msg"
| "str_exc ZeroDivisionError = ''division by zero''"
| "str_exc (OverflowError msg) = msg"

text \<open>Truth value of a decoded JSON value (\<^verbatim>\<open>not username\<close>).\<close>

fun truthy :: "json \<Rightarrow> bool" where
  "truthy JNull = False"
| "truthy (JBool b) = b"
| "truthy (JInt i) = (i \<noteq> 0)"
| "truthy (JFloat r) = (r \<noteq> 0)"
| "truthy (JStr s) = (s \<noteq> [])"
| "truthy (JArr xs) = (xs \<noteq> [])"
| "truthy (JObj kvs) = (kvs \<noteq> [])"

fun type_name :: "json \<Rightarrow> string" where
  "type_name JNull = ''NoneType''"
| "type_name (JBool b) = ''bool''"
| "type_name (JInt i) = ''int''"
| "type_name (JFloat r) = ''float''"
| "type_name (JStr s) = ''str''"
| "type_name (JArr xs) = ''list''"
| "type_name (JObj kvs) = ''dict''"

text \<open>\<^verbatim>\<open>str.isalnum\<close> on ASCII text: at least one character, all letters or digits.\<close>

definition isalnum_char :: "char \<Rightarrow> bool" where
  "isalnum_char c =
     (let n = (of_char c :: nat)
      in (48 \<le> n \<and> n \<le> 57) \<or> (65 \<le> n \<and> n \<le> 90) \<or> (97 \<le> n \<and> n \<le> 122))"

definition isalnum :: "string \<Rightarrow> bool" where
  "isalnum s = (s \<noteq> [] \<and> list_all isalnum_char s)"

subsection \<open>Calendar\<close>

text \<open>
  The proleptic Gregorian calendar of \<^verbatim>\<open>datetime\<close>: a day number counts days from
  1970-01-01. A \<^verbatim>\<open>date\<close> is represented by its day number, so that comparing
  dates, sorting them and adding \<^verbatim>\<open>timedelta(days=1)\<close> are the same operations on
  the integers; a UTC \<^verbatim>\<open>datetime\<close> is represented by its POSIX seconds.
\<close>

definition civil_from_days :: "int \<Rightarrow> int \<times> int \<times> int" where
  "civil_from_days days =
    (let z = days + 719468;
         era = z div 146097;
         doe = z - era * 146097;
         yoe = (doe - doe div 1460 + doe div 36524 - doe div 146096) div 365;
         doy = doe - (365 * yoe + yoe div 4 - yoe div 100);
         mp = (5 * doy + 2) div 153;
         d = doy - (153 * mp + 2) div 5 + 1;
         m = (if mp < 10 then mp + 3 else mp - 9);
         y = yoe + era * 400 + (if m \<le> 2 then 1 else 0)
     in (y, m, d))"

definition days_from_civil :: "int \<Rightarrow> int \<Rightarrow> int \<Rightarrow> int" where
  "days_from_civil y0 m d =
    (let y = (if m \<le> 2 then y0 - 1 else y0);
         era = y div 400;
         yoe = y - era * 400;
         doy = (153 * (if 2 < m then m - 3 else m + 9) + 2) div 5 + d - 1;
         doe = yoe * 365 + yoe div 4 - yoe div 100 + doy
     in era * 146097 + doe - 719468)"

definition year_of :: "int \<Rightarrow> int" where
  "year_of seconds = fst (civil_from_days (seconds div 86400))"

definition month_of :: "int \<Rightarrow> int" where
  "month_of seconds = fst (snd (civil_from_days (seconds div 86400)))"

text \<open>
  \<^verbatim>\<open>datetime.utcfromtimestamp(t)\<close>: the years 1 to 9999 are representable; outside
  them the constructor raises. (Beyond the range of the platform's \<^verbatim>\<open>time_t\<close> CPython
  raises another exception class; here every timestamp out of range is the
  \<open>ValueError\<close> of the year check.)
\<close>

definition utcfromtimestamp :: "int \<Rightarrow> py_error + int" where
  "utcfromtimestamp t =
     (if t < - 62135596800 \<or> 253402300799 < t
      then Inl (ValueError (''year '' @ str_int (year_of t) @ '' is out of range''))
      else Inr t)"

definition date :: "int \<Rightarrow> int" where
  "date dt = dt div 86400"

text \<open>\<^verbatim>\<open>strftime("%B")\<close> in the C locale.\<close>

definition strftime_B :: "int \<Rightarrow> string" where
  "strftime_B dt =
     [''January'', ''February'', ''March'', ''April'', ''May'', ''June'', ''July'',
      ''August'', ''September'', ''October'', ''November'', ''December'']
       ! nat (month_of dt - 1)"

text \<open>
  The server's clock: the POSIX time of the request and the offset of the server's local
  time zone east of UTC, in seconds (a zone with a fixed offset).
  \<^verbatim>\<open>datetime.now()\<close> is a naive datetime in local time, and \<^verbatim>\<open>.timestamp()\<close> of a
  naive datetime reads it as local time.
\<close>

record clock =
  now :: int
  utcoffset :: int

definition year_start :: "clock \<Rightarrow> int" where
  "year_start clk =
     (let year = year_of (now clk + utcoffset clk)
      in days_from_civil year 1 1 * 86400 - utcoffset clk)"

subsection \<open>Containers\<close>

text \<open>Evaluating a comprehension whose element expression can raise: the first
  exception ends it.\<close>

fun mapM_exc :: "('a \<Rightarrow> py_error + 'b) \<Rightarrow> 'a list \<Rightarrow> py_error + 'b list" where
  "mapM_exc f [] = Inr []"
| "mapM_exc f (x # xs) =
     (case f x of
        Inl e \<Rightarrow> Inl e
      | Inr y \<Rightarrow> (case mapM_exc f xs of Inl e \<Rightarrow> Inl e | Inr ys \<Rightarrow> Inr (y # ys)))"

text \<open>
  A dict keeps its keys in the order of their first insertion; storing under a key that
  is present replaces the value and leaves the position. A dict display
  \<^verbatim>\<open>{k1: v1, k2: v2, ...}\<close> stores its items from left to right.
\<close>

fun dict_set :: "'k \<Rightarrow> 'v \<Rightarrow> ('k \<times> 'v) list \<Rightarrow> ('k \<times> 'v) list" where
  "dict_set k v [] = [(k, v)]"
| "dict_set k v ((k', v') # kvs) =
     (if k' = k then (k', v) # kvs else (k', v') # dict_set k v kvs)"

definition dict_display :: "('k \<times> 'v) list \<Rightarrow> ('k \<times> 'v) list" where
  "dict_display items = foldl (\<lambda>d (k, v). dict_set k v d) [] items"

text \<open>\<^verbatim>\<open>Counter(xs)\<close>: a dict of tallies, in the order of first occurrence.\<close>

definition counter_add :: "('k \<times> nat) list \<Rightarrow> 'k \<Rightarrow> ('k \<times> nat) list" where
  "counter_add c x = dict_set x (case map_of c x of None \<Rightarrow> 1 | Some n \<Rightarrow> Suc n) c"

definition Counter :: "'k list \<Rightarrow> ('k \<times> nat) list" where
  "Counter xs = foldl counter_add [] xs"

text \<open>
  \<^verbatim>\<open>most_common(1)\<close> is \<^verbatim>\<open>heapq.nlargest(1, items, key=count)\<close>, which is
  \<^verbatim>\<open>max\<close> over the items: the first item with the greatest count, or no item.
\<close>

fun max_count :: "('k \<times> nat) \<Rightarrow> ('k \<times> nat) list \<Rightarrow> ('k \<times> nat)" where
  "max_count best [] = best"
| "max_count best (x # xs) =
     (if snd best < snd x then max_count x xs else max_count best xs)"

definition most_common_1 :: "('k \<times> nat) list \<Rightarrow> ('k \<times> nat) list" where
  "most_common_1 c = (case c of [] \<Rightarrow> [] | x # xs \<Rightarrow> [max_count x xs])"

text \<open>\<^verbatim>\<open>Counter(xs).most_common(1)[0][0]\<close>.\<close>

definition most_common_key :: "'k list \<Rightarrow> py_error + 'k" where
  "most_common_key xs =
     (case most_common_1 (Counter xs) of [] \<Rightarrow> Inl IndexError | (k, n) # rest \<Rightarrow> Inr k)"


section \<open>Upstream data\<close>

text \<open>
  The payloads of the Codeforces API, typed by the keys the handler reads. A key read
  with \<^verbatim>\<open>d[k]\<close> is a field; a key read with \<^verbatim>\<open>d.get(k, default)\<close> or tested with
  \<^verbatim>\<open>k in d\<close> may be absent and is an option. The key \<^verbatim>\<open>"rank"\<close> of a rating change
  is the field \<open>contestRank\<close>.
\<close>

record user =
  rank :: "string option"
  maxRank :: "string option"
  rating :: "int option"

record problem =
  contestId :: int
  index :: string
  tags :: "string list option"

record submission =
  problem :: problem
  verdict :: string
  creationTimeSeconds :: int

record contest =
  contestRank :: int
  oldRating :: int
  newRating :: int
  ratingUpdateTimeSeconds :: int

record 'a api_response =
  status :: string
  result :: "'a list"

section \<open>The statistics of \<^verbatim>\<open>generate_wrapped\<close>\<close>

text \<open>The local variables of the handler that hold the derived statistics.\<close>

record stats =
  current_rank :: string
  max_rank :: string
  total_solved :: "string set"
  yearly_solved :: "string set"
  longest_streak :: int
  favorite_topic :: string
  highest_rank :: py_value
  contests_participated :: int
  rating_improvement :: int
  global_percentile :: py_value
  best_month :: string
  milestones :: "string list"

definition accepted :: "submission \<Rightarrow> bool" where
  "accepted sub = (verdict sub = ''OK'')"

text \<open>\<^verbatim>\<open>f"{sub['problem']['contestId']}-{sub['problem']['index']}"\<close>\<close>

definition problem_key :: "submission \<Rightarrow> string" where
  "problem_key sub = str_int (contestId (problem sub)) @ ''-'' @ index (problem sub)"


definition total_solved_of :: "submission list \<Rightarrow> string set" where
  "total_solved_of submissions = set (map problem_key (filter accepted submissions))"

definition yearly_solved_of :: "int \<Rightarrow> submission list \<Rightarrow> string set" where
  "yearly_solved_of ystart submissions =
     set (map problem_key
       (filter (\<lambda>sub. accepted sub \<and> ystart \<le> creationTimeSeconds sub) submissions))"

text \<open>The sorted set of the UTC dates of the accepted submissions.\<close>

definition solved_days_of :: "submission list \<Rightarrow> py_error + int list" where
  "solved_days_of submissions =
     (case mapM_exc (\<lambda>sub. utcfromtimestamp (creationTimeSeconds sub))
             (filter accepted submissions) of
        Inl e \<Rightarrow> Inl e
      | Inr dts \<Rightarrow> Inr (sorted_list_of_set (set (map date dts))))"

text \<open>
  The streak loop, over \<^verbatim>\<open>i = 1, ..., len(solved_days) - 1\<close>: \<open>prev\<close> is
  \<^verbatim>\<open>solved_days[i - 1]\<close>, the list holds \<^verbatim>\<open>solved_days[i:]\<close>, the pair is
  \<^verbatim>\<open>(longest_streak, current_streak)\<close>.
\<close>

fun streak_loop :: "int \<Rightarrow> int list \<Rightarrow> int \<times> int \<Rightarrow> int \<times> int" where
  "streak_loop prev [] (longest, current) = (longest, current)"
| "streak_loop prev (d # ds) (longest, current) =
     (if d = prev + 1 then streak_loop d ds (longest, current + 1)
      else streak_loop d ds (max longest current, 1))"

definition longest_streak_of :: "int list \<Rightarrow> int" where
  "longest_streak_of solved_days =
     (let (longest, current) =
            (case solved_days of [] \<Rightarrow> (0, 1) | d # ds \<Rightarrow> streak_loop d ds (0, 1))
      in max longest current)"

definition topics_of :: "submission list \<Rightarrow> string list" where
  "topics_of submissions =
     concat (map (\<lambda>sub. case tags (problem sub) of None \<Rightarrow> [] | Some ts \<Rightarrow> ts)
       (filter accepted submissions))"

definition favorite_topic_of :: "string list \<Rightarrow> py_error + string" where
  "favorite_topic_of topics = (if topics = [] then Inr ''N/A'' else most_common_key topics)"

definition highest_rank_of :: "contest list \<Rightarrow> py_value" where
  "highest_rank_of contests =
     (case map contestRank contests of [] \<Rightarrow> VStr ''N/A'' | r # rs \<Rightarrow> VInt (foldl min r rs))"

definition rating_improvement_of :: "int \<Rightarrow> user \<Rightarrow> contest list \<Rightarrow> int" where
  "rating_improvement_of ystart user_data contests =
     (let yearly_contests = filter (\<lambda>c. ystart \<le> ratingUpdateTimeSeconds c) contests;
          start_rating =
            (case yearly_contests of
               [] \<Rightarrow> (case rating user_data of None \<Rightarrow> 0 | Some r \<Rightarrow> r)
             | c # cs \<Rightarrow> oldRating c);
          end_rating =
            (case yearly_contests of
               [] \<Rightarrow> (case rating user_data of None \<Rightarrow> 0 | Some r \<Rightarrow> r)
             | c # cs \<Rightarrow> newRating (last yearly_contests))
      in end_rating - start_rating)"

text \<open>
  \<^verbatim>\<open>user_data['rating'] / HIGHEST_RATED_USER\<close> is the true division of two ints: it
  raises when the divisor is 0, and when the quotient rounds beyond the largest float.
\<close>

definition global_percentile_of :: "user \<Rightarrow> int \<Rightarrow> py_error + py_value" where
  "global_percentile_of user_data HIGHEST_RATED_USER =
     (case rating user_data of
        None \<Rightarrow> Inr (VStr ''N/A'')
      | Some r \<Rightarrow>
          if HIGHEST_RATED_USER = 0 then Inl ZeroDivisionError
          else if (2 ^ 1024 - 2 ^ 970) * \<bar>HIGHEST_RATED_USER\<bar> \<le> \<bar>r\<bar>
          then Inl (OverflowError ''integer division result too large for a float'')
          else Inr (TopPercent r HIGHEST_RATED_USER))"

definition submission_months_of :: "submission list \<Rightarrow> py_error + string list" where
  "submission_months_of submissions =
     (case mapM_exc (\<lambda>sub. utcfromtimestamp (creationTimeSeconds sub))
             (filter accepted submissions) of
        Inl e \<Rightarrow> Inl e
      | Inr dts \<Rightarrow> Inr (map strftime_B dts))"

definition best_month_of :: "string list \<Rightarrow> py_error + string" where
  "best_month_of submission_months =
     (if submission_months = [] then Inr ''N/A'' else most_common_key submission_months)"

text \<open>The dict display \<^verbatim>\<open>milestone_conditions\<close>, keyed by the six conditions, and
  the list collected from its items.\<close>

definition milestone_conditions ::
  "string set \<Rightarrow> string \<Rightarrow> user \<Rightarrow> int \<Rightarrow> int \<Rightarrow> string set \<Rightarrow> (bool \<times> string) list" where
  "milestone_conditions solved current_rank' user_data contests_participated' longest_streak' solved_year =
     dict_display
       [(500 \<le> card solved, ''Solved 500+ problems''),
        (current_rank' \<in> set [''grandmaster'', ''legendary grandmaster''],
           ''Achieved Grandmaster rank''),
        (3000 \<le> (case rating user_data of None \<Rightarrow> 0 | Some r \<Rightarrow> r),
           ''Reached a rating of 3000+''),
        (10 \<le> contests_participated', ''Participated in 10+ contests''),
        (7 \<le> longest_streak', ''Maintained a streak of 7+ days''),
        (100 \<le> card solved_year, ''Solved 100+ problems this year'')]"

definition milestones_of :: "(bool \<times> string) list \<Rightarrow> string list" where
  "milestones_of conditions = map snd (filter fst conditions)"

text \<open>Lines 84 to 144: from the four payloads to the statistics.\<close>

definition aggregate ::
  "clock \<Rightarrow> user api_response \<Rightarrow> submission api_response \<Rightarrow> contest api_response \<Rightarrow>
   user api_response \<Rightarrow> py_error + stats" where
  "aggregate clk user_info user_status user_rating tourist_info =
     (case result user_info of
        [] \<Rightarrow> Inl IndexError
      | user_data # other_users \<Rightarrow>
     (case result tourist_info of
        [] \<Rightarrow> Inl IndexError
      | tourist # other_tourists \<Rightarrow>
     (case rating tourist of
        None \<Rightarrow> Inl (KeyError ''rating'')
      | Some HIGHEST_RATED_USER \<Rightarrow>
     (case solved_days_of (result user_status) of
        Inl e \<Rightarrow> Inl e
      | Inr solved_days \<Rightarrow>
     (case favorite_topic_of (topics_of (result user_status)) of
        Inl e \<Rightarrow> Inl e
      | Inr favorite \<Rightarrow>
     (case global_percentile_of user_data HIGHEST_RATED_USER of
        Inl e \<Rightarrow> Inl e
      | Inr percentile \<Rightarrow>
     (case submission_months_of (result user_status) of
        Inl e \<Rightarrow> Inl e
      | Inr submission_months \<Rightarrow>
     (case best_month_of submission_months of
        Inl e \<Rightarrow> Inl e
      | Inr best \<Rightarrow>
          (let submissions = result user_status;
               contests = result user_rating;
               rank_now = (case rank user_data of None \<Rightarrow> ''N/A'' | Some r \<Rightarrow> r);
               solved = total_solved_of submissions;
               solved_year = yearly_solved_of (year_start clk) submissions;
               streak = longest_streak_of solved_days;
               participated = int (length contests)
           in Inr \<lparr>current_rank = rank_now,
                   max_rank = (case maxRank user_data of None \<Rightarrow> ''N/A'' | Some r \<Rightarrow> r),
                   total_solved = solved,
                   yearly_solved = solved_year,
                   longest_streak = streak,
                   favorite_topic = favorite,
                   highest_rank = highest_rank_of contests,
                   contests_participated = participated,
                   rating_improvement = rating_improvement_of (year_start clk) user_data contests,
                   global_percentile = percentile,
                   best_month = best,
                   milestones =
                     milestones_of
                       (milestone_conditions solved rank_now user_data participated streak
                          solved_year)\<rparr>)))))))))"

text \<open>The dict \<^verbatim>\<open>response\<close> of lines 147 to 160.\<close>

definition response :: "string \<Rightarrow> stats \<Rightarrow> (string \<times> py_value) list" where
  "response username st =
     [(''username'', VStr username),
      (''current_rank'', VStr (current_rank st)),
      (''highest_rank'', highest_rank st),
      (''longest_streak'', VInt (longest_streak st)),
      (''problems_solved_this_year'', VInt (int (card (yearly_solved st)))),
      (''total_problems_solved'', VInt (int (card (total_solved st)))),
      (''favorite_topic'', VStr (favorite_topic st)),
      (''contests_participated'', VInt (contests_participated st)),
      (''rating_improvement'', VInt (rating_improvement st)),
      (''best_month'', VStr (best_month st)),
      (''motivational_message'', VStr ''Keep pushing your limits!''),
      (''global_percentile'', global_percentile st)]"

section \<open>The handler\<close>

text \<open>
  What \<^verbatim>\<open>fetch_data\<close> returns or raises during this request, for each endpoint and
  handle: the cache and the network together are the environment of the handler.
\<close>

record world =
  get_user_info :: "string \<Rightarrow> py_error + user api_response"
  get_user_status :: "string \<Rightarrow> py_error + submission api_response"
  get_user_rating :: "string \<Rightarrow> py_error + contest api_response"

text \<open>A call of \<^verbatim>\<open>fetch_data\<close>: the path under \<^verbatim>\<open>BASE_URL\<close>, the parameter and its
  value.\<close>

type_synonym fetch_call = "string \<times> string \<times> string"

text \<open>The body of the \<^verbatim>\<open>try\<close> statement once the four futures are submitted: it
  returns a response or raises.\<close>

definition try_body ::
  "clock \<Rightarrow> string \<Rightarrow> py_error + user api_response \<Rightarrow> py_error + submission api_response \<Rightarrow>
   py_error + contest api_response \<Rightarrow> py_error + user api_response \<Rightarrow>
   py_error + http_response" where
  "try_body clk username user_info_future user_status_future user_rating_future
     tourist_info_future =
     (case user_info_future of Inl e \<Rightarrow> Inl e | Inr user_info \<Rightarrow>
     (case user_status_future of Inl e \<Rightarrow> Inl e | Inr user_status \<Rightarrow>
     (case user_rating_future of Inl e \<Rightarrow> Inl e | Inr user_rating \<Rightarrow>
     (case tourist_info_future of Inl e \<Rightarrow> Inl e | Inr tourist_info \<Rightarrow>
        if list_all (\<lambda>s. s = ''OK'')
             [status user_info, status user_status, status user_rating, status tourist_info]
        then (case aggregate clk user_info user_status user_rating tourist_info of
                Inl e \<Rightarrow> Inl e
              | Inr st \<Rightarrow> Inr \<lparr>body = response username st, status_code = 200\<rparr>)
        else Inr \<lparr>body = [(''error'', VStr ''Failed to fetch data from Codeforces API'')],
                  status_code = 500\<rparr>))))"

text \<open>
  The view function: what it returns or raises, and the calls of \<^verbatim>\<open>fetch_data\<close> it
  made. \<^verbatim>\<open>data.get\<close> on a body that is not a dict raises outside the \<^verbatim>\<open>try\<close>.
\<close>

definition generate_wrapped ::
  "clock \<Rightarrow> world \<Rightarrow> json \<Rightarrow> (exn + http_response) \<times> fetch_call list" where
  "generate_wrapped clk w data =
     (case data of
        JObj items \<Rightarrow>
          (let username = (case map_of items ''username'' of None \<Rightarrow> JNull | Some v \<Rightarrow> v)
           in if truthy username then
                (case username of
                   JStr name \<Rightarrow>
                     if isalnum name then
                       (case try_body clk name (get_user_info w name) (get_user_status w name)
                               (get_user_rating w name) (get_user_info w ''tourist'') of
                          Inl e \<Rightarrow> Inr \<lparr>body = [(''error'', VStr (str_exc e))], status_code = 500\<rparr>
                        | Inr r \<Rightarrow> Inr r,
                        [(''/user.info'', ''handles'', name),
                         (''/user.status'', ''handle'', name),
                         (''/user.rating'', ''handle'', name),
                         (''/user.info'', ''handles'', ''tourist'')])
                     else (Inr \<lparr>body = [(''error'', VStr ''Invalid username format'')],
                                status_code = 400\<rparr>, [])
                 | other \<Rightarrow> (Inr \<lparr>body = [(''error'', VStr ''Invalid username format'')],
                                status_code = 400\<rparr>, []))
              else (Inr \<lparr>body = [(''error'', VStr ''Username is required'')],
                         status_code = 400\<rparr>, []))
      | other \<Rightarrow>
          (Inl (Exception (AttributeError
             ([CHR 0x27] @ type_name other @ [CHR 0x27] @ '' object has no attribute ''
                @ [CHR 0x27] @ ''get'' @ [CHR 0x27]))), []))"

text \<open>The error handler registered for every exception.\<close>

fun handle_exception :: "exn \<Rightarrow> http_response" where
  "handle_exception (HTTPException code description) =
     \<lparr>body = [(''error'', VStr description)], status_code = code\<rparr>"
| "handle_exception (Exception e) =
     \<lparr>body = [(''error'', VStr ''An unexpected error occurred'')], status_code = 500\<rparr>"

text \<open>Flask's dispatch of a POST to \<^verbatim>\<open>/generate_wrapped\<close>: \<open>request_json\<close> is what
  \<^verbatim>\<open>request.json\<close> gives or raises.\<close>

definition dispatch :: "clock \<Rightarrow> world \<Rightarrow> exn + json \<Rightarrow> http_response \<times> fetch_call list" where
  "dispatch clk w request_json =
     (case request_json of
        Inl e \<Rightarrow> (handle_exception e, [])
      | Inr data \<Rightarrow>
          (case generate_wrapped clk w data of
             (Inl e, calls) \<Rightarrow> (handle_exception e, calls)
           | (Inr r, calls) \<Rightarrow> (r, calls)))"

section \<open>The year boundary of the specification\<close>

text \<open>The boundary as the specification words it: 00:00:00 UTC on January 1 of the year
  that the time \<open>t\<close> of the request falls in, read in UTC.\<close>

definition utc_year_start :: "int \<Rightarrow> int" where
  "utc_year_start t = days_from_civil (year_of t) 1 1 * 86400"

section \<open>Example requests\<close>

text \<open>A request at 2024-06-15 12:00:00 UTC, on a server whose local time is UTC.\<close>

definition example_clock :: clock where
  "example_clock = \<lparr>now = 1718452800, utcoffset = 0\<rparr>"

definition example_user :: user where
  "example_user =
     \<lparr>rank = Some ''expert'', maxRank = Some ''candidate master'', rating = Some 1700\<rparr>"

definition example_tourist :: user where
  "example_tourist =
     \<lparr>rank = Some ''legendary grandmaster'', maxRank = Some ''legendary grandmaster'',
      rating = Some 3800\<rparr>"

text \<open>Problem 1900-A accepted twice (2024-03-01 and 2024-03-02), a wrong answer, and
  problem 1700-C accepted on 2023-11-14.\<close>

definition example_submissions :: "submission list" where
  "example_submissions =
     [\<lparr>problem = \<lparr>contestId = 1900, index = ''A'', tags = Some [''dp'', ''math'']\<rparr>,
       verdict = ''OK'', creationTimeSeconds = 1709294400\<rparr>,
      \<lparr>problem = \<lparr>contestId = 1850, index = ''B'', tags = Some [''graphs'']\<rparr>,
       verdict = ''WRONG_ANSWER'', creationTimeSeconds = 1709300000\<rparr>,
      \<lparr>problem = \<lparr>contestId = 1900, index = ''A'', tags = Some [''dp'', ''math'']\<rparr>,
       verdict = ''OK'', creationTimeSeconds = 1709380800\<rparr>,
      \<lparr>problem = \<lparr>contestId = 1700, index = ''C'', tags = Some [''greedy'']\<rparr>,
       verdict = ''OK'', creationTimeSeconds = 1700000000\<rparr>]"

definition example_contests :: "contest list" where
  "example_contests =
     [\<lparr>contestRank = 1200, oldRating = 1500, newRating = 1580,
       ratingUpdateTimeSeconds = 1690000000\<rparr>,
      \<lparr>contestRank = 800, oldRating = 1580, newRating = 1650,
       ratingUpdateTimeSeconds = 1707000000\<rparr>,
      \<lparr>contestRank = 950, oldRating = 1650, newRating = 1700,
       ratingUpdateTimeSeconds = 1712000000\<rparr>]"

definition ok_response :: "'a list \<Rightarrow> 'a api_response" where
  "ok_response xs = \<lparr>status = ''OK'', result = xs\<rparr>"

text \<open>An upstream that answers every call: the reference user and the submissions are
  parameters.\<close>

definition example_world :: "user \<Rightarrow> submission list \<Rightarrow> world" where
  "example_world reference submissions =
     \<lparr>get_user_info =
        (\<lambda>handle. Inr (ok_response [if handle = ''tourist'' then reference else example_user])),
      get_user_status = (\<lambda>handle. Inr (ok_response submissions)),
      get_user_rating = (\<lambda>handle. Inr (ok_response example_contests))\<rparr>"

definition example_stats :: stats where
  "example_stats =
     \<lparr>current_rank = ''expert'', max_rank = ''candidate master'',
      total_solved = {''1900-A'', ''1700-C''}, yearly_solved = {''1900-A''},
      longest_streak = 2, favorite_topic = ''dp'', highest_rank = VInt 800,
      contests_participated = 3, rating_improvement = 120,
      global_percentile = TopPercent 1700 3800, best_month = ''March'', milestones = []\<rparr>"

text \<open>A grandmaster with 500 accepted submissions, of the problems 1-A to 500-A, all
  made on 2023-11-14.\<close>

definition grandmaster :: user where
  "grandmaster =
     \<lparr>rank = Some ''grandmaster'', maxRank = Some ''grandmaster'', rating = Some 2450\<rparr>"

definition solved_A :: "nat \<Rightarrow> submission" where
  "solved_A i =
     \<lparr>problem = \<lparr>contestId = int i + 1, index = ''A'', tags = None\<rparr>, verdict = ''OK'',
      creationTimeSeconds = 1700000000\<rparr>"

definition many_submissions :: "submission list" where
  "many_submissions = map solved_A [0..<500]"

section \<open>Properties\<close>

lemma aggregate_InrE:
  assumes "aggregate clk ui us ur ti = Inr st"
  obtains user_data others tourist others' H days fav pct months best where
    "result ui = user_data # others"
    "result ti = tourist # others'"
    "rating tourist = Some H"
    "solved_days_of (result us) = Inr days"
    "favorite_topic_of (topics_of (result us)) = Inr fav"
    "global_percentile_of user_data H = Inr pct"
    "submission_months_of (result us) = Inr months"
    "best_month_of months = Inr best"
    "st = \<lparr>current_rank = (case rank user_data of None \<Rightarrow> ''N/A'' | Some r \<Rightarrow> r),
           max_rank = (case maxRank user_data of None \<Rightarrow> ''N/A'' | Some r \<Rightarrow> r),
           total_solved = total_solved_of (result us),
           yearly_solved = yearly_solved_of (year_start clk) (result us),
           longest_streak = longest_streak_of days,
           favorite_topic = fav,
           highest_rank = highest_rank_of (result ur),
           contests_participated = int (length (result ur)),
           rating_improvement = rating_improvement_of (year_start clk) user_data (result ur),
           global_percentile = pct,
           best_month = best,
           milestones =
             milestones_of
               (milestone_conditions (total_solved_of (result us))
                  (case rank user_data of None \<Rightarrow> ''N/A'' | Some r \<Rightarrow> r) user_data
                  (int (length (result ur))) (longest_streak_of days)
                  (yearly_solved_of (year_start clk) (result us)))\<rparr>"
  using assms unfolding aggregate_def
  by (auto split: list.splits option.splits sum.splits simp: Let_def)

text \<open>
  Claim C10. A body whose \<^verbatim>\<open>username\<close> is present and truthy but not a string is
  answered with status 400 and the message \<^verbatim>\<open>Invalid username format\<close>, whatever the clock
  and the upstream are, and no call of \<^verbatim>\<open>fetch_data\<close> is made.
\<close>

theorem non_string_username_rejected:
  assumes "map_of items ''username'' = Some v" and "truthy v" and "\<forall>s. v \<noteq> JStr s"
  shows "generate_wrapped clk w (JObj items) =
           (Inr \<lparr>body = [(''error'', VStr ''Invalid username format'')], status_code = 400\<rparr>, [])"
  using assms unfolding generate_wrapped_def
  by (cases v) (simp_all add: Let_def)

theorem non_string_username_rejected_witness:
  "generate_wrapped \<lparr>now = 0, utcoffset = 0\<rparr>
     \<lparr>get_user_info = (\<lambda>h. Inl (RequestError ''down'')),
      get_user_status = (\<lambda>h. Inl (RequestError ''down'')),
      get_user_rating = (\<lambda>h. Inl (RequestError ''down''))\<rparr>
     (JObj [(''username'', JArr [JInt 7])]) =
   (Inr \<lparr>body = [(''error'', VStr ''Invalid username format'')], status_code = 400\<rparr>, [])"
  by (rule non_string_username_rejected [where v = "JArr [JInt 7]"]) simp_all

lemma response_keys:
  "map fst (response username st) =
     [''username'', ''current_rank'', ''highest_rank'', ''longest_streak'',
      ''problems_solved_this_year'', ''total_problems_solved'', ''favorite_topic'',
      ''contests_participated'', ''rating_improvement'', ''best_month'',
      ''motivational_message'', ''global_percentile'']"
  by (simp add: response_def)

lemma yearly_subset_total: "yearly_solved_of y subs \<subseteq> total_solved_of subs"
  by (auto simp: yearly_solved_of_def total_solved_of_def)

lemma card_yearly_le_total: "card (yearly_solved_of y subs) \<le> card (total_solved_of subs)"
  by (rule card_mono) (simp add: total_solved_of_def, rule yearly_subset_total)


text \<open>
  Claim C6. Whenever the aggregation succeeds, the \<^verbatim>\<open>rating_improvement\<close> of the response
  is, over the contest results whose rating update is at or after the year start (kept in
  their order), the new rating of the last minus the old rating of the first, and 0 when
  there is none.
\<close>

theorem rating_improvement_formula:
  assumes "aggregate clk ui us ur ti = Inr st"
  shows "map_of (response username st) ''rating_improvement'' =
           Some (VInt (let yearly_contests =
                             filter (\<lambda>c. year_start clk \<le> ratingUpdateTimeSeconds c) (result ur)
                       in if yearly_contests = [] then 0
                          else newRating (last yearly_contests) - oldRating (hd yearly_contests)))"
proof -
  from assms obtain user_data where
    "rating_improvement st = rating_improvement_of (year_start clk) user_data (result ur)"
    by (elim aggregate_InrE) simp
  then show ?thesis
    by (simp add: response_def rating_improvement_of_def Let_def split: list.splits option.splits)
qed

text \<open>
  Claim C7. For every list of submissions and every year boundary, the set of problems
  solved this year has at most as many elements as the set of all solved problems; so in
  every response \<^verbatim>\<open>problems_solved_this_year\<close> is at most \<^verbatim>\<open>total_problems_solved\<close>.
\<close>

theorem total_at_least_yearly:
  "card (yearly_solved_of ystart submissions) \<le> card (total_solved_of submissions) \<and>
   (\<forall>st. aggregate clk ui us ur ti = Inr st \<longrightarrow>
      (\<exists>t y. map_of (response username st) ''total_problems_solved'' = Some (VInt t) \<and>
             map_of (response username st) ''problems_solved_this_year'' = Some (VInt y) \<and>
             y \<le> t))"
proof (intro conjI allI impI)
  show "card (yearly_solved_of ystart submissions) \<le> card (total_solved_of submissions)"
    by (rule card_yearly_le_total)
next
  fix st assume "aggregate clk ui us ur ti = Inr st"
  then have "total_solved st = total_solved_of (result us)"
    and "yearly_solved st = yearly_solved_of (year_start clk) (result us)"
    by (elim aggregate_InrE, simp)+
  then show "\<exists>t y. map_of (response username st) ''total_problems_solved'' = Some (VInt t) \<and>
             map_of (response username st) ''problems_solved_this_year'' = Some (VInt y) \<and>
             y \<le> t"
    by (simp add: response_def card_yearly_le_total)
qed

text \<open>
  Claim C1, on the code. Every response with status 200 has exactly the twelve keys below.
  The keys \<^verbatim>\<open>max_rank\<close> and \<^verbatim>\<open>milestones\<close> are not among them: both values are computed
  (lines 92 and 144) and never stored in the dict \<^verbatim>\<open>response\<close>.
\<close>

theorem success_response_keys:
  assumes "generate_wrapped clk w data = (Inr r, calls)" and "status_code r = 200"
  shows "map fst (body r) =
           [''username'', ''current_rank'', ''highest_rank'', ''longest_streak'',
            ''problems_solved_this_year'', ''total_problems_solved'', ''favorite_topic'',
            ''contests_participated'', ''rating_improvement'', ''best_month'',
            ''motivational_message'', ''global_percentile''] \<and>
         map_of (body r) ''max_rank'' = None \<and> map_of (body r) ''milestones'' = None"
proof -
  from assms obtain name st where "body r = response name st"
    unfolding generate_wrapped_def try_body_def
    by (auto simp: Let_def split: json.splits if_splits sum.splits)
  then show ?thesis
    by (simp add: response_def)
qed

text \<open>
  Claim C9, on the code. When the body of the \<^verbatim>\<open>try\<close> statement raises an exception
  \<open>e\<close>, the caller receives status 500 with the text \<^verbatim>\<open>str(e)\<close> of that exception as
  the error message, not the generic message that \<open>handle_exception\<close> gives.
\<close>

theorem exception_text_surfaced:
  assumes "map_of items ''username'' = Some (JStr name)" and "isalnum name"
    and "try_body clk name (get_user_info w name) (get_user_status w name)
           (get_user_rating w name) (get_user_info w ''tourist'') = Inl e"
  shows "fst (dispatch clk w (Inr (JObj items))) =
           \<lparr>body = [(''error'', VStr (str_exc e))], status_code = 500\<rparr>"
  using assms unfolding dispatch_def generate_wrapped_def
  by (auto simp: Let_def isalnum_def)

subsection \<open>The example request, step by step\<close>

lemma solved_days_of_sort:
  "solved_days_of submissions =
     (case mapM_exc (\<lambda>sub. utcfromtimestamp (creationTimeSeconds sub))
             (filter accepted submissions) of
        Inl e \<Rightarrow> Inl e
      | Inr dts \<Rightarrow> Inr (sort (remdups (map date dts))))"
  by (simp only: solved_days_of_def sorted_list_of_set_sort_remdups)

lemma example_year_start: "year_start example_clock = 1704067200"
  unfolding example_clock_def by code_simp

lemma example_datetimes:
  "mapM_exc (\<lambda>sub. utcfromtimestamp (creationTimeSeconds sub))
     (filter accepted example_submissions) = Inr [1709294400, 1709380800, 1700000000]"
  by (simp add: example_submissions_def accepted_def utcfromtimestamp_def)

lemma example_solved_days:
  "solved_days_of example_submissions = Inr [19675, 19783, 19784]"
  by (simp add: solved_days_of_sort example_datetimes date_def)

lemma example_month_names:
  "strftime_B 1709294400 = ''March''" "strftime_B 1709380800 = ''March''"
  "strftime_B 1700000000 = ''November''"
  by code_simp+

lemma example_months:
  "submission_months_of example_submissions = Inr [''March'', ''March'', ''November'']"
  by (simp add: submission_months_of_def example_datetimes example_month_names)

lemma example_keys:
  "problem_key \<lparr>problem = \<lparr>contestId = 1900, index = ''A'', tags = ts\<rparr>, verdict = v,
     creationTimeSeconds = t\<rparr> = ''1900-A''"
  "problem_key \<lparr>problem = \<lparr>contestId = 1700, index = ''C'', tags = ts\<rparr>, verdict = v,
     creationTimeSeconds = t\<rparr> = ''1700-C''"
  by (simp_all add: problem_key_def str_int_def digits.simps)

lemma example_total: "total_solved_of example_submissions = {''1900-A'', ''1700-C''}"
  by (simp add: total_solved_of_def example_submissions_def accepted_def example_keys)

lemma example_yearly: "yearly_solved_of 1704067200 example_submissions = {''1900-A''}"
  by (simp add: yearly_solved_of_def example_submissions_def accepted_def example_keys)

lemma example_topics:
  "topics_of example_submissions = [''dp'', ''math'', ''dp'', ''math'', ''greedy'']"
  by (simp add: topics_of_def example_submissions_def accepted_def)

lemma example_streak: "longest_streak_of [19675, 19783, 19784] = 2"
  by (simp add: longest_streak_of_def)

lemma example_favorite:
  "favorite_topic_of [''dp'', ''math'', ''dp'', ''math'', ''greedy''] = Inr ''dp''"
  by (simp add: favorite_topic_of_def most_common_key_def most_common_1_def Counter_def
      counter_add_def)

lemma example_best: "best_month_of [''March'', ''March'', ''November''] = Inr ''March''"
  by (simp add: best_month_of_def most_common_key_def most_common_1_def Counter_def
      counter_add_def)

lemma example_improvement:
  "rating_improvement_of 1704067200 example_user example_contests = 120"
  by (simp add: rating_improvement_of_def example_contests_def)

lemma example_percentile:
  "global_percentile_of example_user 3800 = Inr (TopPercent 1700 3800)"
  by (simp add: global_percentile_of_def example_user_def)

lemma example_highest_rank: "highest_rank_of example_contests = VInt 800"
  by (simp add: highest_rank_of_def example_contests_def)

lemma example_milestones:
  "milestones_of (milestone_conditions {''1900-A'', ''1700-C''} ''expert'' example_user 3 2
     {''1900-A''}) = []"
  by (simp add: milestones_of_def milestone_conditions_def dict_display_def example_user_def)

lemma example_aggregate:
  "aggregate example_clock (ok_response [example_user]) (ok_response example_submissions)
     (ok_response example_contests) (ok_response [example_tourist]) = Inr example_stats"
proof -
  have r: "rank example_user = Some ''expert''" "maxRank example_user = Some ''candidate master''"
    "rating example_tourist = Some 3800" "int (length example_contests) = 3"
    by (simp_all add: example_user_def example_tourist_def example_contests_def)
  show ?thesis
    unfolding aggregate_def ok_response_def
    by (simp add: r example_solved_days example_topics example_favorite example_percentile
        example_months example_best example_year_start example_total example_yearly
        example_streak example_improvement example_highest_rank example_milestones
        example_stats_def)
qed

subsection \<open>Further steps and the claims about them\<close>

lemma ok_response_simps [simp]:
  "status (ok_response xs) = ''OK''" "result (ok_response xs) = xs"
  by (simp_all add: ok_response_def)

lemma isalnum_alice: "isalnum ''alice''"
  by (simp add: isalnum_def isalnum_char_def)

lemma example_request:
  "generate_wrapped example_clock (example_world example_tourist example_submissions)
     (JObj [(''username'', JStr ''alice'')]) =
   (Inr \<lparr>body = response ''alice'' example_stats, status_code = 200\<rparr>,
    [(''/user.info'', ''handles'', ''alice''), (''/user.status'', ''handle'', ''alice''),
     (''/user.rating'', ''handle'', ''alice''), (''/user.info'', ''handles'', ''tourist'')])"
  by (simp add: generate_wrapped_def try_body_def example_world_def isalnum_alice
      example_aggregate)

lemma example_zero_reference:
  "aggregate example_clock (ok_response [example_user]) (ok_response example_submissions)
     (ok_response example_contests) (ok_response [example_tourist\<lparr>rating := Some 0\<rparr>]) =
   Inl ZeroDivisionError"
proof -
  have "global_percentile_of example_user 0 = Inl ZeroDivisionError"
    by (simp add: global_percentile_of_def example_user_def)
  then show ?thesis
    unfolding aggregate_def
    by (simp add: example_solved_days example_topics example_favorite)
qed

lemma year_start_utc: "utcoffset clk = 0 \<Longrightarrow> year_start clk = utc_year_start (now clk)"
  by (simp add: year_start_def utc_year_start_def)

lemma no_accepted_steps:
  assumes "filter accepted submissions = []"
  shows "solved_days_of submissions = Inr []" and "topics_of submissions = []"
    and "submission_months_of submissions = Inr []"
    and "total_solved_of submissions = {}" and "yearly_solved_of ystart submissions = {}"
proof -
  show "solved_days_of submissions = Inr []"
    by (simp add: solved_days_of_def assms)
  show "topics_of submissions = []"
    by (simp add: topics_of_def assms)
  show "submission_months_of submissions = Inr []"
    by (simp add: submission_months_of_def assms)
  show "total_solved_of submissions = {}"
    by (simp add: total_solved_of_def assms)
  have "filter (\<lambda>sub. accepted sub \<and> ystart \<le> creationTimeSeconds sub) submissions = []"
    using assms by (auto simp: filter_empty_conv)
  then show "yearly_solved_of ystart submissions = {}"
    by (simp add: yearly_solved_of_def)
qed

text \<open>
  Claim C2, on the code. With no accepted submission the statistics are the sentinels
  \<^verbatim>\<open>N/A\<close> for the favorite topic and the best month and 0 for both counts of solved
  problems, as the claim says, but \<^verbatim>\<open>longest_streak\<close> is 1 and not 0: the loop does not
  run, and the final \<^verbatim>\<open>max(longest_streak, current_streak)\<close> takes the initial
  \<^verbatim>\<open>current_streak = 1\<close>.
\<close>

theorem no_accepted_submissions_streak_one:
  assumes "filter accepted (result us) = []" and "aggregate clk ui us ur ti = Inr st"
  shows "map_of (response username st) ''longest_streak'' = Some (VInt 1) \<and>
         map_of (response username st) ''favorite_topic'' = Some (VStr ''N/A'') \<and>
         map_of (response username st) ''best_month'' = Some (VStr ''N/A'') \<and>
         map_of (response username st) ''total_problems_solved'' = Some (VInt 0) \<and>
         map_of (response username st) ''problems_solved_this_year'' = Some (VInt 0)"
proof -
  note steps = no_accepted_steps [OF assms(1)]
  from assms(2) have "longest_streak st = 1" and "favorite_topic st = ''N/A''"
    and "best_month st = ''N/A''" and "total_solved st = {}" and "yearly_solved st = {}"
    by (elim aggregate_InrE,
        simp add: steps longest_streak_of_def favorite_topic_of_def best_month_of_def)+
  then show ?thesis
    by (simp add: response_def)
qed

text \<open>
  Claim C4, on the code. The cutoff is the start of the current year in the server's local
  time, not in UTC. On a server at UTC+05:30, for a request on 2024-06-15, the cutoff is
  2023-12-31 18:30:00 UTC, five and a half hours before the UTC start of 2024, and an
  accepted submission made at 2023-12-31 19:13:20 UTC is counted as solved this year.
\<close>

theorem year_start_is_local:
  "year_start \<lparr>now = 1718452800, utcoffset = 19800\<rparr> = 1704047400 \<and>
   utc_year_start 1718452800 = 1704067200 \<and>
   year_of 1704050000 = 2023 \<and>
   yearly_solved_of (year_start \<lparr>now = 1718452800, utcoffset = 19800\<rparr>)
     [\<lparr>problem = \<lparr>contestId = 1900, index = ''A'', tags = None\<rparr>, verdict = ''OK'',
       creationTimeSeconds = 1704050000\<rparr>] = {''1900-A''}"
proof -
  have a: "year_start \<lparr>now = 1718452800, utcoffset = 19800\<rparr> = 1704047400"
    by code_simp
  have b: "utc_year_start 1718452800 = 1704067200"
    by code_simp
  have c: "year_of 1704050000 = 2023"
    by code_simp
  have d: "yearly_solved_of 1704047400
     [\<lparr>problem = \<lparr>contestId = 1900, index = ''A'', tags = None\<rparr>, verdict = ''OK'',
       creationTimeSeconds = 1704050000\<rparr>] = {''1900-A''}"
    by (simp add: yearly_solved_of_def accepted_def example_keys)
  show ?thesis
    by (simp only: a b c d simp_thms)
qed

subsection \<open>The claims at the example request\<close>

lemma example_no_accepted:
  "\<exists>st. aggregate example_clock (ok_response [example_user]) (ok_response [])
     (ok_response example_contests) (ok_response [example_tourist]) = Inr st"
  unfolding aggregate_def
  by (simp add: no_accepted_steps favorite_topic_of_def best_month_of_def example_percentile
      example_tourist_def Let_def)

theorem no_accepted_submissions_streak_one_witness:
  "\<exists>st. aggregate example_clock (ok_response [example_user]) (ok_response [])
          (ok_response example_contests) (ok_response [example_tourist]) = Inr st \<and>
        map_of (response ''alice'' st) ''longest_streak'' = Some (VInt 1) \<and>
        map_of (response ''alice'' st) ''favorite_topic'' = Some (VStr ''N/A'') \<and>
        map_of (response ''alice'' st) ''best_month'' = Some (VStr ''N/A'') \<and>
        map_of (response ''alice'' st) ''total_problems_solved'' = Some (VInt 0) \<and>
        map_of (response ''alice'' st) ''problems_solved_this_year'' = Some (VInt 0)"
proof -
  from example_no_accepted obtain st where
    st: "aggregate example_clock (ok_response [example_user]) (ok_response [])
          (ok_response example_contests) (ok_response [example_tourist]) = Inr st" ..
  have "filter accepted (result (ok_response [])) = []"
    by simp
  from no_accepted_submissions_streak_one [OF this st, of "''alice''"] st
  show ?thesis by blast
qed

theorem success_response_keys_witness:
  "generate_wrapped example_clock (example_world example_tourist example_submissions)
     (JObj [(''username'', JStr ''alice'')]) =
   (Inr \<lparr>body = response ''alice'' example_stats, status_code = 200\<rparr>,
    [(''/user.info'', ''handles'', ''alice''), (''/user.status'', ''handle'', ''alice''),
     (''/user.rating'', ''handle'', ''alice''), (''/user.info'', ''handles'', ''tourist'')]) \<and>
   map fst (response ''alice'' example_stats) =
     [''username'', ''current_rank'', ''highest_rank'', ''longest_streak'',
      ''problems_solved_this_year'', ''total_problems_solved'', ''favorite_topic'',
      ''contests_participated'', ''rating_improvement'', ''best_month'',
      ''motivational_message'', ''global_percentile''] \<and>
   map_of (response ''alice'' example_stats) ''max_rank'' = None \<and>
   map_of (response ''alice'' example_stats) ''milestones'' = None"
proof -
  have "status_code \<lparr>body = response ''alice'' example_stats, status_code = 200\<rparr> = 200"
    by simp
  from success_response_keys [OF example_request this] example_request
  show ?thesis by simp
qed

theorem rating_improvement_formula_witness:
  "aggregate example_clock (ok_response [example_user]) (ok_response example_submissions)
     (ok_response example_contests) (ok_response [example_tourist]) = Inr example_stats \<and>
   map_of (response ''alice'' example_stats) ''rating_improvement'' = Some (VInt 120)"
proof -
  have e: "(let yearly_contests =
                 filter (\<lambda>c. year_start example_clock \<le> ratingUpdateTimeSeconds c)
                   (result (ok_response example_contests))
            in if yearly_contests = [] then 0
               else newRating (last yearly_contests) - oldRating (hd yearly_contests)) = 120"
    by (simp add: example_year_start example_contests_def)
  from rating_improvement_formula [OF example_aggregate, of "''alice''"]
  have "map_of (response ''alice'' example_stats) ''rating_improvement'' = Some (VInt 120)"
    by (simp only: e)
  with example_aggregate show ?thesis by (rule conjI)
qed

theorem total_at_least_yearly_witness:
  "card (yearly_solved_of 1704067200 example_submissions) \<le>
     card (total_solved_of example_submissions) \<and>
   (\<exists>t y. map_of (response ''alice'' example_stats) ''total_problems_solved'' = Some (VInt t) \<and>
          map_of (response ''alice'' example_stats) ''problems_solved_this_year'' =
            Some (VInt y) \<and> y \<le> t)"
proof -
  from total_at_least_yearly [of 1704067200 example_submissions example_clock
      "ok_response [example_user]" "ok_response example_submissions"
      "ok_response example_contests" "ok_response [example_tourist]" "''alice''"]
  show ?thesis using example_aggregate by blast
qed


text \<open>
  Claim C5. When the profile has a rating and the rating of the reference user is 0, the
  aggregation raises (the division of line 127 raises \<^verbatim>\<open>ZeroDivisionError\<close> unless an
  earlier step has raised), so no statistics and no percentile are returned, and the
  caller of the handler receives an error message with status 500.
\<close>

theorem zero_reference_rating_is_error:
  assumes "map_of items ''username'' = Some (JStr name)" and "isalnum name"
    and "get_user_info w name = Inr user_info" and "result user_info = u # us"
    and "rating u = Some r"
    and "get_user_info w ''tourist'' = Inr tourist_info" and "result tourist_info = t # ts"
    and "rating t = Some 0"
  shows "(\<exists>e. aggregate clk user_info user_status user_rating tourist_info = Inl e) \<and>
         (\<exists>msg. fst (dispatch clk w (Inr (JObj items))) =
                  \<lparr>body = [(''error'', VStr msg)], status_code = 500\<rparr>)"
proof -
  have pct: "global_percentile_of u 0 = Inl ZeroDivisionError"
    using assms(5) by (simp add: global_percentile_of_def)
  have agg: "\<exists>e. aggregate clk user_info a b tourist_info = Inl e" for a b
    unfolding aggregate_def using assms(4,7,8) pct
    by (simp split: sum.splits)
  have agg_ne [simp]: "aggregate clk user_info a b tourist_info \<noteq> Inr st" for a b st
    using agg [of a b] by auto
  have "\<exists>msg. (case try_body clk name (Inr user_info) sf rf (Inr tourist_info) of
                 Inl e \<Rightarrow> \<lparr>body = [(''error'', VStr (str_exc e))], status_code = 500\<rparr>
               | Inr r \<Rightarrow> r) = \<lparr>body = [(''error'', VStr msg)], status_code = 500\<rparr>" for sf rf
    unfolding try_body_def
    by (cases sf; cases rf) (simp_all split: sum.splits)
  note shape = this [of "get_user_status w name" "get_user_rating w name"]
  have "fst (dispatch clk w (Inr (JObj items))) =
          (case try_body clk name (Inr user_info) (get_user_status w name)
                  (get_user_rating w name) (Inr tourist_info) of
             Inl e \<Rightarrow> \<lparr>body = [(''error'', VStr (str_exc e))], status_code = 500\<rparr>
           | Inr r \<Rightarrow> r)"
    using assms(1,2,3,6) unfolding dispatch_def generate_wrapped_def
    by (cases "try_body clk name (Inr user_info) (get_user_status w name)
                  (get_user_rating w name) (Inr tourist_info)")
       (simp_all add: Let_def isalnum_def)
  with shape have "\<exists>msg. fst (dispatch clk w (Inr (JObj items))) =
               \<lparr>body = [(''error'', VStr msg)], status_code = 500\<rparr>"
    by simp
  with agg show ?thesis by blast
qed


theorem zero_reference_rating_is_error_witness:
  "aggregate example_clock (ok_response [example_user]) (ok_response example_submissions)
     (ok_response example_contests) (ok_response [example_tourist\<lparr>rating := Some 0\<rparr>]) =
     Inl ZeroDivisionError \<and>
   (\<exists>e. aggregate example_clock (ok_response [example_user]) (ok_response example_submissions)
     (ok_response example_contests) (ok_response [example_tourist\<lparr>rating := Some 0\<rparr>]) =
     Inl e) \<and>
   (\<exists>msg. fst (dispatch example_clock
                 (example_world (example_tourist\<lparr>rating := Some 0\<rparr>) example_submissions)
                 (Inr (JObj [(''username'', JStr ''alice'')]))) =
            \<lparr>body = [(''error'', VStr msg)], status_code = 500\<rparr>)"
proof -
  have "(\<exists>e. aggregate example_clock (ok_response [example_user])
            (ok_response example_submissions) (ok_response example_contests)
            (ok_response [example_tourist\<lparr>rating := Some 0\<rparr>]) = Inl e) \<and>
        (\<exists>msg. fst (dispatch example_clock
                 (example_world (example_tourist\<lparr>rating := Some 0\<rparr>) example_submissions)
                 (Inr (JObj [(''username'', JStr ''alice'')]))) =
            \<lparr>body = [(''error'', VStr msg)], status_code = 500\<rparr>)"
    by (rule zero_reference_rating_is_error [where name = "''alice''" and u = example_user
          and us = "[]" and r = 1700 and t = "example_tourist\<lparr>rating := Some 0\<rparr>"
          and ts = "[]"])
       (simp_all add: isalnum_alice example_world_def example_user_def)
  with example_zero_reference show ?thesis by (rule conjI)
qed

theorem exception_text_surfaced_witness:
  "fst (dispatch example_clock
          (example_world (example_tourist\<lparr>rating := Some 0\<rparr>) example_submissions)
          (Inr (JObj [(''username'', JStr ''alice'')]))) =
     \<lparr>body = [(''error'', VStr ''division by zero'')], status_code = 500\<rparr> \<and>
   handle_exception (Exception ZeroDivisionError) =
     \<lparr>body = [(''error'', VStr ''An unexpected error occurred'')], status_code = 500\<rparr>"
proof -
  have tb: "try_body example_clock ''alice''
          (get_user_info (example_world (example_tourist\<lparr>rating := Some 0\<rparr>) example_submissions) ''alice'')
          (get_user_status (example_world (example_tourist\<lparr>rating := Some 0\<rparr>) example_submissions) ''alice'')
          (get_user_rating (example_world (example_tourist\<lparr>rating := Some 0\<rparr>) example_submissions) ''alice'')
          (get_user_info (example_world (example_tourist\<lparr>rating := Some 0\<rparr>) example_submissions) ''tourist'') =
        Inl ZeroDivisionError"
    by (simp add: try_body_def example_world_def example_zero_reference)
  have m: "map_of [(''username'', JStr ''alice'')] ''username'' = Some (JStr ''alice'')"
    by simp
  have s: "str_exc ZeroDivisionError = ''division by zero''"
    by simp
  from exception_text_surfaced [OF m isalnum_alice tb]
  have "fst (dispatch example_clock
          (example_world (example_tourist\<lparr>rating := Some 0\<rparr>) example_submissions)
          (Inr (JObj [(''username'', JStr ''alice'')]))) =
     \<lparr>body = [(''error'', VStr ''division by zero'')], status_code = 500\<rparr>"
    by (simp only: s)
  then show ?thesis by simp
qed

subsection \<open>Duplicates and tallies\<close>

lemma map_of_dict_set: "map_of (dict_set k v d) = (map_of d)(k \<mapsto> v)"
  by (induction d) auto










text \<open>The key of a problem determines its identity: the text of an int holds no
  \<^verbatim>\<open>-\<close> after its first character.\<close>

lemma digits_nonempty: "digits n \<noteq> []"
  by (subst digits.simps) simp

lemma digit_char_inj:
  assumes "a < 10" and "b < 10" and "''0123456789'' ! a = ''0123456789'' ! b"
  shows "a = b"
proof -
  have "distinct ''0123456789''" by simp
  moreover have "a < length ''0123456789''" "b < length ''0123456789''"
    using assms(1,2) by simp_all
  ultimately show ?thesis
    using assms(3) by (simp only: nth_eq_iff_index_eq)
qed

lemma digits_inj: "digits m = digits n \<Longrightarrow> m = n"
proof (induction m arbitrary: n rule: digits.induct)
  case (1 m)
  show ?case
  proof (cases "m < 10")
    case small_m: True
    show ?thesis
    proof (cases "n < 10")
      case True
      with small_m "1.prems" show ?thesis
        by (simp add: digits.simps [of m] digits.simps [of n] digit_char_inj)
    next
      case False
      with small_m "1.prems" digits_nonempty [of "n div 10"] show ?thesis
        by (simp add: digits.simps [of m] digits.simps [of n] Cons_eq_append_conv)
    qed
  next
    case big_m: False
    show ?thesis
    proof (cases "n < 10")
      case True
      with big_m "1.prems" digits_nonempty [of "m div 10"] show ?thesis
        by (simp add: digits.simps [of m] digits.simps [of n] append_eq_Cons_conv)
    next
      case False
      with big_m "1.prems" have eq: "digits (m div 10) = digits (n div 10)"
        and last: "''0123456789'' ! (m mod 10) = ''0123456789'' ! (n mod 10)"
        by (simp_all add: digits.simps [of m] digits.simps [of n])
      from "1.IH" [OF big_m eq] have "m div 10 = n div 10" .
      moreover from last have "m mod 10 = n mod 10"
        by (intro digit_char_inj) simp_all
      ultimately show ?thesis
        by (metis div_mult_mod_eq)
    qed
  qed
qed











subsection \<open>Milestones\<close>

text \<open>
  Claim C3, on the code. With 500 distinct solved problems, the rank
  \<^verbatim>\<open>grandmaster\<close> and no other condition true, the list \<^verbatim>\<open>milestones\<close> holds the one
  message \<^verbatim>\<open>Achieved Grandmaster rank\<close>; \<^verbatim>\<open>Solved 500+ problems\<close> is not in it. The six
  conditions are the keys of a dict, so the two true ones are one key \<^verbatim>\<open>True\<close>, whose
  value is the message stored last.
\<close>

theorem milestones_keep_last_message:
  assumes "aggregate clk ui us ur ti = Inr st"
    and "card (total_solved st) = 500" and "current_rank st = ''grandmaster''"
    and "result ui = u # others" and "(case rating u of None \<Rightarrow> 0 | Some r \<Rightarrow> r) < 3000"
    and "contests_participated st < 10" and "longest_streak st < 7"
    and "card (yearly_solved st) < 100"
  shows "milestones st = [''Achieved Grandmaster rank'']"
proof -
  from assms(1) obtain user_data others' days where
    ui: "result ui = user_data # others'"
    and ms: "milestones st =
      milestones_of (milestone_conditions (total_solved st) (current_rank st) user_data
        (contests_participated st) (longest_streak st) (yearly_solved st))"
    by (elim aggregate_InrE) simp
  from ui assms(4) have "user_data = u" by simp
  with ms assms(2,3,5,6,7,8) show ?thesis
    by (simp add: milestones_of_def milestone_conditions_def dict_display_def)
qed

lemma dict_set_keys: "fst ` set (dict_set k v d) = insert k (fst ` set d)"
  by (induction d) (force split: if_splits)+

lemma dict_set_distinct: "distinct (map fst d) \<Longrightarrow> distinct (map fst (dict_set k v d))"
proof (induction d)
  case Nil
  then show ?case by simp
next
  case (Cons kv d)
  from dict_set_keys [of k v d] have "set (map fst (dict_set k v d)) = insert k (set (map fst d))"
    by simp
  with Cons show ?case
    by (cases kv) auto
qed

lemma dict_display_foldl:
  "distinct (map fst d0) \<Longrightarrow>
   distinct (map fst (foldl (\<lambda>d (k, v). dict_set k v d) d0 items)) \<and>
   map_of (foldl (\<lambda>d (k, v). dict_set k v d) d0 items) = map_of (rev items @ d0)"
proof (induction items arbitrary: d0)
  case Nil
  then show ?case by simp
next
  case (Cons kv items)
  obtain k v where kv: "kv = (k, v)" by (cases kv)
  from Cons.prems have "distinct (map fst (dict_set k v d0))"
    by (rule dict_set_distinct)
  from Cons.IH [OF this] show ?case
    by (simp add: kv map_of_dict_set map_of_append)
qed

lemma true_entries:
  "distinct (map fst d) \<Longrightarrow>
   map snd (filter fst d) = (case map_of d True of None \<Rightarrow> [] | Some v \<Rightarrow> [v])"
proof (induction d)
  case Nil
  then show ?case by simp
next
  case (Cons kv d)
  obtain k v where kv: "kv = (k, v)" by (cases kv)
  show ?case
  proof (cases k)
    case True
    with Cons.prems kv have "\<forall>x\<in>set d. \<not> fst x"
      by (auto simp: image_iff)
    then have "filter fst d = []"
      by (simp add: filter_empty_conv)
    with True kv show ?thesis by simp
  next
    case False
    with Cons kv show ?thesis by simp
  qed
qed

lemma milestones_last_true:
  "milestones_of (dict_display items) =
     (case map_of (rev items) True of None \<Rightarrow> [] | Some message \<Rightarrow> [message])"
  using dict_display_foldl [of "[]" items]
  by (simp add: milestones_of_def dict_display_def true_entries)

lemma milestones_at_most_one:
  "length (milestones_of (milestone_conditions solved r u c s solved_year)) \<le> 1"
  unfolding milestone_conditions_def milestones_last_true
  by (simp split: option.splits)

lemma dict_set_nonempty: "dict_set k v d \<noteq> []"
  by (cases d) (auto split: if_splits)

lemma Counter_nonempty: "xs \<noteq> [] \<Longrightarrow> Counter xs \<noteq> []"
proof -
  have "c \<noteq> [] \<Longrightarrow> foldl counter_add c ys \<noteq> []" for c :: "('a \<times> nat) list" and ys
    by (induction ys arbitrary: c) (simp_all add: counter_add_def dict_set_nonempty)
  then show "xs \<noteq> [] \<Longrightarrow> Counter xs \<noteq> []"
    by (cases xs) (simp_all add: Counter_def counter_add_def)
qed

lemma most_common_key_total: "xs \<noteq> [] \<Longrightarrow> \<exists>k. most_common_key xs = Inr k"
  using Counter_nonempty [of xs]
  by (auto simp: most_common_key_def most_common_1_def split: list.splits prod.splits)

lemma problem_key_solved_A: "problem_key (solved_A i) = digits (Suc i) @ ''-A''"
  by (simp add: problem_key_def solved_A_def str_int_def nat_add_distrib)

lemma inj_problem_key_solved_A: "inj (\<lambda>i. problem_key (solved_A i))"
  by (rule injI) (auto simp: problem_key_solved_A dest: digits_inj)

lemma accepted_solved_A [simp]: "accepted (solved_A i)"
  by (simp add: accepted_def solved_A_def)

lemma filter_accepted_solved_A: "filter accepted (map solved_A xs) = map solved_A xs"
  by (induction xs) simp_all

lemma many_total: "card (total_solved_of many_submissions) = 500"
proof -
  have "distinct (map (\<lambda>i. problem_key (solved_A i)) [0..<500])"
    by (simp add: distinct_map inj_on_subset [OF inj_problem_key_solved_A])
  then have "card (set (map (\<lambda>i. problem_key (solved_A i)) [0..<500])) = 500"
    by (simp only: distinct_card length_map length_upt) 
  then show ?thesis
    by (simp add: total_solved_of_def many_submissions_def filter_accepted_solved_A o_def)
qed

lemma many_yearly: "yearly_solved_of 1704067200 many_submissions = {}"
proof -
  have "filter (\<lambda>sub. accepted sub \<and> 1704067200 \<le> creationTimeSeconds sub)
          (map solved_A xs) = []" for xs
    by (induction xs) (simp_all add: solved_A_def)
  then show ?thesis
    by (simp add: yearly_solved_of_def many_submissions_def)
qed

lemma many_datetimes:
  "mapM_exc (\<lambda>sub. utcfromtimestamp (creationTimeSeconds sub)) (map solved_A xs) =
     Inr (replicate (length xs) 1700000000)"
  by (induction xs) (simp_all add: solved_A_def utcfromtimestamp_def)

lemma tags_solved_A [simp]: "tags (problem (solved_A i)) = None"
  by (simp add: solved_A_def)

lemma solved_A_steps:
  assumes "xs \<noteq> []"
  shows "solved_days_of (map solved_A xs) = Inr [19675]"
    and "topics_of (map solved_A xs) = []"
    and "\<exists>ms. submission_months_of (map solved_A xs) = Inr ms \<and> ms \<noteq> []"
proof -
  from assms have "set (replicate (length xs) (19675::int)) = {19675}"
    by simp
  then show "solved_days_of (map solved_A xs) = Inr [19675]"
    by (simp add: solved_days_of_def filter_accepted_solved_A many_datetimes date_def
        del: set_replicate)
  show "topics_of (map solved_A xs) = []"
    by (simp add: topics_of_def filter_accepted_solved_A)
  from assms show "\<exists>ms. submission_months_of (map solved_A xs) = Inr ms \<and> ms \<noteq> []"
    by (simp add: submission_months_of_def filter_accepted_solved_A many_datetimes)
qed

lemma many_aggregate:
  "\<exists>st. aggregate example_clock (ok_response [grandmaster]) (ok_response many_submissions)
     (ok_response example_contests) (ok_response [example_tourist]) = Inr st \<and>
     card (total_solved st) = 500 \<and> current_rank st = ''grandmaster'' \<and>
     contests_participated st = 3 \<and> longest_streak st = 1 \<and> card (yearly_solved st) = 0"
proof -
  have ne: "[0..<500::nat] \<noteq> []"
    by simp
  note steps = solved_A_steps [OF ne, folded many_submissions_def]
  from steps(3) obtain ms where ms: "submission_months_of many_submissions = Inr ms"
    and "ms \<noteq> []"
    by blast
  from most_common_key_total [OF this(2)] obtain best where
    best: "best_month_of ms = Inr best"
    using \<open>ms \<noteq> []\<close> by (auto simp: best_month_of_def)
  have pct: "global_percentile_of grandmaster 3800 = Inr (TopPercent 2450 3800)"
    by (simp add: global_percentile_of_def grandmaster_def)
  have r: "rank grandmaster = Some ''grandmaster''" "rating example_tourist = Some 3800"
    "int (length example_contests) = 3" "longest_streak_of [19675] = 1"
    by (simp_all add: grandmaster_def example_tourist_def example_contests_def
        longest_streak_of_def)
  show ?thesis
    unfolding aggregate_def
    by (simp add: r steps(1,2) favorite_topic_of_def pct ms best
        example_year_start many_total many_yearly Let_def)
qed

theorem milestones_keep_last_message_witness:
  "\<exists>st. aggregate example_clock (ok_response [grandmaster]) (ok_response many_submissions)
          (ok_response example_contests) (ok_response [example_tourist]) = Inr st \<and>
        card (total_solved st) = 500 \<and> current_rank st = ''grandmaster'' \<and>
        milestones st = [''Achieved Grandmaster rank'']"
proof -
  from many_aggregate obtain st where
    st: "aggregate example_clock (ok_response [grandmaster]) (ok_response many_submissions)
          (ok_response example_contests) (ok_response [example_tourist]) = Inr st"
    and h: "card (total_solved st) = 500" "current_rank st = ''grandmaster''"
      "contests_participated st = 3" "longest_streak st = 1" "card (yearly_solved st) = 0"
    by blast
  have u: "result (ok_response [grandmaster]) = grandmaster # []"
    "(case rating grandmaster of None \<Rightarrow> 0 | Some r \<Rightarrow> r) < 3000"
    by (simp_all add: grandmaster_def)
  have "milestones st = [''Achieved Grandmaster rank'']"
    by (rule milestones_keep_last_message [OF st h(1,2) u]) (simp_all add: h)
  with st h show ?thesis by blast
qed

end
